theory Spec2Isabelle
  imports Main
begin

section \<open>JavaScript values\<close>

text \<open>
  The values the handlers receive are what Express hands over after parsing: the entries of
  \<open>req.query\<close> (strings, arrays, nested objects) and of \<open>req.body\<close> (any JSON value).
  A string is the list of the bytes of its UTF-8 encoding. A number is carried by its
  canonical decimal rendering, the result of JavaScript's \<open>String(n)\<close>: the code below
  observes a number only through its truthiness and through that rendering. An object is the
  list of its own properties in insertion order, each name once.
\<close>

datatype jsval =
    JUndefined
  | JNull
  | JBool bool
  | JNum string
  | JStr string
  | JArr "jsval list"
  | JObj "(string \<times> jsval) list"

text \<open>An exception: \<open>new Error(message)\<close>, or a \<open>TypeError\<close> raised by the runtime.\<close>

datatype js_error = Error string | TypeError

text \<open>JavaScript's ToBoolean; \<open>!v\<close> is its negation.\<close>

fun truthy :: "jsval \<Rightarrow> bool" where
  "truthy JUndefined = False"
| "truthy JNull = False"
| "truthy (JBool b) = b"
| "truthy (JNum s) = (s \<noteq> ''0'' \<and> s \<noteq> ''NaN'')"
| "truthy (JStr s) = (s \<noteq> [])"
| "truthy (JArr xs) = True"
| "truthy (JObj kvs) = True"

text \<open>
  Property access \<open>obj.k\<close> (and the destructuring \<open>const { k } = obj\<close>): reading a property
  of \<open>undefined\<close> or \<open>null\<close> throws, a property that is not there reads as \<open>undefined\<close>.
  The names read by this program are not array indices and are on no prototype.
\<close>

fun js_get :: "jsval \<Rightarrow> string \<Rightarrow> js_error + jsval" where
  "js_get JUndefined k = Inl TypeError"
| "js_get JNull k = Inl TypeError"
| "js_get (JObj kvs) k = Inr (case map_of kvs k of None \<Rightarrow> JUndefined | Some v \<Rightarrow> v)"
| "js_get v k = Inr JUndefined"

section \<open>The request context (request-context.ts)\<close>

record RequestContext =
  bearerToken :: "string option"

text \<open>
  \<open>requestContext.getStore()\<close> yields the context of the enclosing \<open>run\<close>, or \<open>undefined\<close>
  outside of one: a \<open>RequestContext option\<close>, passed to the code that reads it.
\<close>

type_synonym store = "RequestContext option"

section \<open>Auth providers (auth-provider.ts)\<close>

record AxiosResponse =
  status :: int
  data :: jsval

record AxiosError =
  response :: "AxiosResponse option"

type_synonym headers = "(string \<times> string) list"

definition isAuthError :: "AxiosError \<Rightarrow> bool" where
  "isAuthError error =
     (map_option status (response error) = Some 401 \<or>
      map_option status (response error) = Some 403)"

datatype AuthProvider = StaticAuthProvider headers | BearerTokenAuthProvider

definition StaticAuthProvider_getAuthHeaders :: "headers \<Rightarrow> js_error + headers" where
  "StaticAuthProvider_getAuthHeaders hs = Inr hs"

definition StaticAuthProvider_handleAuthError :: "headers \<Rightarrow> AxiosError \<Rightarrow> js_error + bool" where
  "StaticAuthProvider_handleAuthError hs error = Inr False"

text \<open>The error thrown when no bearer token is found; the spec calls it CredentialUnavailable.\<close>

definition CredentialUnavailable :: js_error where
  "CredentialUnavailable =
     Error ''No bearer token found in request context. Ensure the client sends Authorization: Bearer <token> header.''"

definition BearerTokenAuthProvider_getAuthHeaders :: "store \<Rightarrow> js_error + headers" where
  "BearerTokenAuthProvider_getAuthHeaders context =
     (let token = (case context of None \<Rightarrow> None | Some c \<Rightarrow> bearerToken c)
      in case token of
           None \<Rightarrow> Inl CredentialUnavailable
         | Some t \<Rightarrow>
             if t = [] then Inl CredentialUnavailable
             else Inr [(''Authorization'', ''Bearer '' @ t)])"

definition BearerTokenAuthProvider_handleAuthError :: "AxiosError \<Rightarrow> js_error + bool" where
  "BearerTokenAuthProvider_handleAuthError error = Inr False"

text \<open>The interface \<open>AuthProvider\<close>: a call goes to the method of the instance's class.\<close>

fun getAuthHeaders :: "AuthProvider \<Rightarrow> store \<Rightarrow> js_error + headers" where
  "getAuthHeaders (StaticAuthProvider hs) context = StaticAuthProvider_getAuthHeaders hs"
| "getAuthHeaders BearerTokenAuthProvider context = BearerTokenAuthProvider_getAuthHeaders context"

fun handleAuthError :: "AuthProvider \<Rightarrow> AxiosError \<Rightarrow> js_error + bool" where
  "handleAuthError (StaticAuthProvider hs) error = StaticAuthProvider_handleAuthError hs error"
| "handleAuthError BearerTokenAuthProvider error = BearerTokenAuthProvider_handleAuthError error"

section \<open>Strings on the wire\<close>

text \<open>Sequencing of computations that may throw.\<close>

definition bind_result :: "'e + 'a \<Rightarrow> ('a \<Rightarrow> 'e + 'b) \<Rightarrow> 'e + 'b" where
  "bind_result m f = (case m of Inl e \<Rightarrow> Inl e | Inr x \<Rightarrow> f x)"

text \<open>
  JavaScript's ToString, applied wherever a value is used as a string. An array is the join
  of its elements with commas, \<open>undefined\<close> and \<open>null\<close> elements rendering as the empty string.
  A plain object renders as \<open>[object Object]\<close> through \<open>Object.prototype.toString\<close>; an own
  property \<open>toString\<close> shadows that method with a value that cannot be called, and the
  conversion throws a \<open>TypeError\<close>.
\<close>

fun ToString :: "jsval \<Rightarrow> js_error + string"
  and join_elements :: "jsval list \<Rightarrow> js_error + string" where
  "ToString JUndefined = Inr ''undefined''"
| "ToString JNull = Inr ''null''"
| "ToString (JBool b) = Inr (if b then ''true'' else ''false'')"
| "ToString (JNum s) = Inr s"
| "ToString (JStr s) = Inr s"
| "ToString (JArr xs) = join_elements xs"
| "ToString (JObj kvs) =
     (if ''toString'' \<in> set (map fst kvs) then Inl TypeError else Inr ''[object Object]'')"
| "join_elements [] = Inr []"
| "join_elements (x # xs) =
     bind_result (if x = JUndefined \<or> x = JNull then Inr [] else ToString x) (\<lambda>a.
       if xs = [] then Inr a
       else bind_result (join_elements xs) (\<lambda>b. Inr (a @ '','' @ b)))"

definition hex_digit :: "nat \<Rightarrow> char" where
  "hex_digit n = ''0123456789ABCDEF'' ! n"

definition percent_encode :: "char \<Rightarrow> string" where
  "percent_encode c =
     [CHR ''%'', hex_digit (of_char c div 16), hex_digit (of_char c mod 16)]"

definition alphanumeric :: "char \<Rightarrow> bool" where
  "alphanumeric c =
     (c \<in> set ''ABCDEFGHIJKLMNOPQRSTUVWXYZabcdefghijklmnopqrstuvwxyz0123456789'')"

text \<open>
  \<open>encodeURIComponent\<close> leaves the letters, the digits and \<open>- _ . ! ~ * ' ( )\<close> as they
  are and escapes every other byte of the UTF-8 encoding.
\<close>

definition uri_unreserved :: "char \<Rightarrow> bool" where
  "uri_unreserved c = (alphanumeric c \<or> c \<in> set ''-_.!~*()'' \<or> c = CHR 0x27)"

definition encodeURIComponent :: "string \<Rightarrow> string" where
  "encodeURIComponent s =
     concat (map (\<lambda>c. if uri_unreserved c then [c] else percent_encode c) s)"

text \<open>
  The serializer of \<open>URLSearchParams\<close> (application/x-www-form-urlencoded): letters, digits
  and \<open>* - . _\<close> stay, a space becomes \<open>+\<close>, every other byte is escaped.
\<close>

definition urlencoded_byte :: "char \<Rightarrow> string" where
  "urlencoded_byte c =
     (if c = CHR '' '' then ''+''
      else if alphanumeric c \<or> c \<in> set ''*-._'' then [c]
      else percent_encode c)"

definition urlencoded_string :: "string \<Rightarrow> string" where
  "urlencoded_string s = concat (map urlencoded_byte s)"

text \<open>\<open>Array.prototype.join\<close> on strings.\<close>

fun join :: "string \<Rightarrow> string list \<Rightarrow> string" where
  "join sep [] = []"
| "join sep [x] = x"
| "join sep (x # y # ys) = x @ sep @ join sep (y # ys)"

definition urlencoded_serialize :: "(string \<times> string) list \<Rightarrow> string" where
  "urlencoded_serialize ps =
     join ''&'' (map (\<lambda>(k, v). urlencoded_string k @ ''='' @ urlencoded_string v) ps)"

section \<open>URLs\<close>

text \<open>
  A parsed \<open>URL\<close>: the serialised scheme, authority and path, the list of the query's
  name-value pairs, and the fragment (with its \<open>#\<close>, or empty). The parser \<open>new URL(s)\<close>
  belongs to the runtime; it is a parameter of the handler, \<open>None\<close> where it throws.
\<close>

record URL =
  url_base :: string
  searchParams :: "(string \<times> string) list"
  url_hash :: string

text \<open>
  \<open>searchParams.set(name, value)\<close>: the first pair called \<open>name\<close> takes the value and the
  other pairs of that name go; without such a pair, a new one is appended.
\<close>

fun set_pair :: "string \<Rightarrow> string \<Rightarrow> (string \<times> string) list \<Rightarrow> (string \<times> string) list" where
  "set_pair k v [] = [(k, v)]"
| "set_pair k v (p # ps) =
     (if fst p = k then (k, v) # filter (\<lambda>q. fst q \<noteq> k) ps else p # set_pair k v ps)"

definition searchParams_set :: "string \<Rightarrow> jsval \<Rightarrow> URL \<Rightarrow> js_error + URL" where
  "searchParams_set k v u =
     bind_result (ToString v) (\<lambda>s. Inr (u\<lparr>searchParams := set_pair k s (searchParams u)\<rparr>))"

definition URL_toString :: "URL \<Rightarrow> string" where
  "URL_toString u =
     url_base u
       @ (if searchParams u = [] then [] else ''?'' @ urlencoded_serialize (searchParams u))
       @ url_hash u"

section \<open>The OAuth relay (the server's Express handlers)\<close>

text \<open>What a handler sends back: \<open>res.status(n).json(v)\<close>, or \<open>res.redirect(url)\<close> (a 302).\<close>

datatype Response = Json int jsval | Redirect int string

definition res_json :: "jsval \<Rightarrow> Response" where
  "res_json v = Json 200 v"

definition res_redirect :: "string \<Rightarrow> Response" where
  "res_redirect url = Redirect 302 url"

definition oauth_error :: "string \<Rightarrow> string \<Rightarrow> jsval" where
  "oauth_error code description =
     JObj [(''error'', JStr code), (''error_description'', JStr description)]"

text \<open>
  A request sent downstream. Each handler returns, beside its response, the list of the
  requests it sent.
\<close>

record HttpRequest =
  req_method :: string
  req_url :: string
  req_headers :: headers
  req_body :: string

text \<open>\<open>a || b\<close>\<close>

definition js_or :: "jsval \<Rightarrow> jsval \<Rightarrow> jsval" where
  "js_or a b = (if truthy a then a else b)"

subsection \<open>GET /oauth/authorize\<close>

text \<open>The body of the \<open>try\<close> block; \<open>Inl\<close> is an exception on its way to \<open>catch\<close>.\<close>

definition authorize_try :: "(string \<Rightarrow> URL option) \<Rightarrow> string \<Rightarrow> jsval \<Rightarrow> js_error + Response" where
  "authorize_try new_URL BULLET_TRAIN_BASE_URL query =
     bind_result (js_get query ''client_id'') (\<lambda>client_id.
     bind_result (js_get query ''redirect_uri'') (\<lambda>redirect_uri.
     bind_result (js_get query ''state'') (\<lambda>state.
     bind_result (js_get query ''response_type'') (\<lambda>response_type.
     bind_result (js_get query ''resource'') (\<lambda>resource.
       if \<not> truthy client_id \<or> \<not> truthy redirect_uri \<or> \<not> truthy state then
         Inr (Json 400 (oauth_error ''invalid_request''
                ''Missing required parameters: client_id, redirect_uri, or state''))
       else
         (case new_URL (BULLET_TRAIN_BASE_URL @ ''/oauth/authorize'') of
            None \<Rightarrow> Inl TypeError
          | Some bulletTrainAuthUrl \<Rightarrow>
              bind_result (searchParams_set ''client_id'' client_id bulletTrainAuthUrl) (\<lambda>u1.
              bind_result (searchParams_set ''redirect_uri'' redirect_uri u1) (\<lambda>u2.
              bind_result (searchParams_set ''state'' state u2) (\<lambda>u3.
              bind_result (searchParams_set ''response_type''
                             (js_or response_type (JStr ''code'')) u3) (\<lambda>u4.
                Inr (res_redirect (URL_toString u4))))))))))))"

text \<open>
  The handler itself; it sends nothing downstream (a redirect is an answer to the caller,
  who then visits the downstream server on its own).
\<close>

definition authorize_handler ::
  "(string \<Rightarrow> URL option) \<Rightarrow> string \<Rightarrow> jsval \<Rightarrow> Response \<times> HttpRequest list" where
  "authorize_handler new_URL BULLET_TRAIN_BASE_URL query =
     (case authorize_try new_URL BULLET_TRAIN_BASE_URL query of
        Inr r \<Rightarrow> (r, [])
      | Inl error \<Rightarrow>
          (Json 500 (oauth_error ''server_error''
             ''Internal server error during authorization''), []))"

subsection \<open>POST /oauth/token\<close>

text \<open>
  An answer on the wire: the status, the headers (Node gives their names in lower case)
  and the body as axios parses it.
\<close>

record HttpResponse =
  http_status :: int
  http_headers :: headers
  http_body :: jsval

text \<open>
  What lies under \<open>axios.post\<close> is a parameter of the handler: the network (the answer a
  request gets, \<open>None\<close> when no answer arrives), the request that the HTTP client builds to
  follow a redirect to a given \<open>Location\<close> (resolving the URL and rewriting method, headers
  and body are the library's), and the limit on the redirects it follows. The handler
  passes no \<open>maxRedirects\<close>, so the limit is the library's default.
\<close>

record Transport =
  network :: "HttpRequest \<Rightarrow> HttpResponse option"
  redirect_request :: "HttpRequest \<Rightarrow> string \<Rightarrow> HttpRequest"
  maxRedirects :: nat

text \<open>What \<open>catch\<close> may receive: an \<open>AxiosError\<close>, or any other exception.\<close>

datatype thrown = ThrownAxiosError AxiosError | ThrownError js_error

text \<open>axios fulfils the promise for a status from 200 to 299 and rejects it otherwise.\<close>

definition validateStatus :: "int \<Rightarrow> bool" where
  "validateStatus s = (200 \<le> s \<and> s < 300)"

text \<open>
  An answer is a redirect to follow when its status is from 300 to 399 and it has a
  non-empty \<open>location\<close> header.
\<close>

definition redirect_location :: "HttpResponse \<Rightarrow> string option" where
  "redirect_location r =
     (if 300 \<le> http_status r \<and> http_status r < 400 then
        (case map_of (http_headers r) ''location'' of
           None \<Rightarrow> None
         | Some l \<Rightarrow> if l = [] then None else Some l)
      else None)"

text \<open>
  Sending a request and following redirects, at most \<open>budget\<close> of them: one redirect more
  ends the exchange with an error and without a response. The result is the response the
  exchange ends with and the requests sent, in order.
\<close>

fun follow_redirects ::
  "Transport \<Rightarrow> nat \<Rightarrow> HttpRequest \<Rightarrow> HttpResponse option \<times> HttpRequest list" where
  "follow_redirects t 0 request =
     (case network t request of
        None \<Rightarrow> (None, [request])
      | Some r \<Rightarrow>
          (case redirect_location r of
             None \<Rightarrow> (Some r, [request])
           | Some l \<Rightarrow> (None, [request])))"
| "follow_redirects t (Suc budget) request =
     (case network t request of
        None \<Rightarrow> (None, [request])
      | Some r \<Rightarrow>
          (case redirect_location r of
             None \<Rightarrow> (Some r, [request])
           | Some l \<Rightarrow>
               (case follow_redirects t budget (redirect_request t request l) of
                  (final, calls) \<Rightarrow> (final, request # calls))))"

text \<open>With \<open>maxRedirects\<close> 0 axios uses the plain HTTP client, which follows nothing.\<close>

definition http_adapter ::
  "Transport \<Rightarrow> HttpRequest \<Rightarrow> HttpResponse option \<times> HttpRequest list" where
  "http_adapter t request =
     (if maxRedirects t = 0 then (network t request, [request])
      else follow_redirects t (maxRedirects t) request)"

definition axios_post ::
  "Transport \<Rightarrow> string \<Rightarrow> 'd \<Rightarrow> headers \<Rightarrow> ('d \<Rightarrow> js_error + string)
     \<Rightarrow> (thrown + AxiosResponse) \<times> HttpRequest list" where
  "axios_post t url d hs transformRequest =
     (case transformRequest d of
        Inl e \<Rightarrow> (Inl (ThrownError e), [])
      | Inr body \<Rightarrow>
          (case http_adapter t
                  \<lparr>req_method = ''POST'', req_url = url, req_headers = hs, req_body = body\<rparr> of
             (None, calls) \<Rightarrow> (Inl (ThrownAxiosError \<lparr>response = None\<rparr>), calls)
           | (Some r, calls) \<Rightarrow>
               if validateStatus (http_status r) then
                 (Inr \<lparr>status = http_status r, data = http_body r\<rparr>, calls)
               else
                 (Inl (ThrownAxiosError
                         \<lparr>response = Some \<lparr>status = http_status r, data = http_body r\<rparr>\<rparr>),
                  calls)))"

text \<open>
  The \<open>transformRequest\<close> of the token call: the keys of the data object in order, each as
  \<open>encodeURIComponent(key)=encodeURIComponent(data[key] || '')\<close>, joined by \<open>&\<close>.
\<close>

fun encode_fields :: "(string \<times> jsval) list \<Rightarrow> js_error + string list" where
  "encode_fields [] = Inr []"
| "encode_fields ((key, v) # kvs) =
     bind_result (ToString (js_or v (JStr []))) (\<lambda>s.
     bind_result (encode_fields kvs) (\<lambda>rest.
       Inr ((encodeURIComponent key @ ''='' @ encodeURIComponent s) # rest)))"

definition transformRequest :: "(string \<times> jsval) list \<Rightarrow> js_error + string" where
  "transformRequest d = bind_result (encode_fields d) (\<lambda>fields. Inr (join ''&'' fields))"

definition token_try ::
  "Transport \<Rightarrow> string \<Rightarrow> jsval \<Rightarrow> (thrown + Response) \<times> HttpRequest list" where
  "token_try server BULLET_TRAIN_BASE_URL body =
     (case bind_result (js_get body ''grant_type'') (\<lambda>grant_type.
           bind_result (js_get body ''code'') (\<lambda>code.
           bind_result (js_get body ''redirect_uri'') (\<lambda>redirect_uri.
           bind_result (js_get body ''client_id'') (\<lambda>client_id.
           bind_result (js_get body ''client_secret'') (\<lambda>client_secret.
             Inr (grant_type, code, redirect_uri, client_id, client_secret)))))) of
        Inl e \<Rightarrow> (Inl (ThrownError e), [])
      | Inr (grant_type, code, redirect_uri, client_id, client_secret) \<Rightarrow>
          if \<not> truthy client_id \<or> \<not> truthy client_secret then
            (Inr (Json 400 (oauth_error ''invalid_request''
                    ''Missing client_id or client_secret'')), [])
          else if grant_type = JStr ''authorization_code'' \<and> \<not> truthy code then
            (Inr (Json 400 (oauth_error ''invalid_request''
                    ''Missing authorization code'')), [])
          else
            (case axios_post server (BULLET_TRAIN_BASE_URL @ ''/oauth/token'')
                    [(''grant_type'', grant_type), (''code'', code),
                     (''redirect_uri'', redirect_uri), (''client_id'', client_id),
                     (''client_secret'', client_secret)]
                    [(''Content-Type'', ''application/x-www-form-urlencoded'')]
                    transformRequest of
               (Inl e, calls) \<Rightarrow> (Inl e, calls)
             | (Inr tokenResponse, calls) \<Rightarrow> (Inr (res_json (data tokenResponse)), calls)))"

definition token_handler ::
  "Transport \<Rightarrow> string \<Rightarrow> jsval \<Rightarrow> Response \<times> HttpRequest list" where
  "token_handler server BULLET_TRAIN_BASE_URL body =
     (case token_try server BULLET_TRAIN_BASE_URL body of
        (Inr r, calls) \<Rightarrow> (r, calls)
      | (Inl error, calls) \<Rightarrow>
          (case error of
             ThrownAxiosError e \<Rightarrow>
               (case response e of
                  Some r \<Rightarrow> (Json (status r) (data r), calls)
                | None \<Rightarrow>
                    (Json 500 (oauth_error ''server_error''
                       ''Internal server error during token exchange''), calls))
           | ThrownError e \<Rightarrow>
               (Json 500 (oauth_error ''server_error''
                  ''Internal server error during token exchange''), calls)))"

text \<open>A response is the relay's rejection of a request as invalid.\<close>

fun invalid_request :: "Response \<Rightarrow> bool" where
  "invalid_request (Json s (JObj kvs)) = (s = 400 \<and> map_of kvs ''error'' = Some (JStr ''invalid_request''))"
| "invalid_request r = False"

fun is_redirect :: "Response \<Rightarrow> bool" where
  "is_redirect (Redirect s l) = True"
| "is_redirect r = False"

section \<open>The downstream call wrapper\<close>

text \<open>
  Modelled from the spec: the call interface the wrapper consumes (spec 6),
  \<open>issue(method, path, headers, body) -> response | failure{status, body}\<close>; its source is
  not among the files.
\<close>

record ApiCall =
  call_method :: string
  call_path :: string
  call_headers :: headers
  call_body :: jsval

type_synonym issue = "ApiCall \<Rightarrow> AxiosError + AxiosResponse"

datatype call_failure = CredentialFailure js_error | DownstreamFailure AxiosError

text \<open>
  Modelled from the spec: the first steps of the Downstream Call Wrapper (spec 4.4), whose
  source is not among the files: resolve the headers through the auth provider, merge them
  into the request, issue the call. A failure to resolve the headers ends the attempt
  before anything is issued.
\<close>

definition issue_with_auth ::
  "AuthProvider \<Rightarrow> store \<Rightarrow> issue \<Rightarrow> ApiCall
     \<Rightarrow> (call_failure + (AxiosError + AxiosResponse)) \<times> ApiCall list" where
  "issue_with_auth provider context issue c =
     (case getAuthHeaders provider context of
        Inl e \<Rightarrow> (Inl (CredentialFailure e), [])
      | Inr hs \<Rightarrow>
          (let c' = c\<lparr>call_headers := call_headers c @ hs\<rparr>
           in (Inr (issue c'), [c'])))"

text \<open>
  Modelled from the spec: the Downstream Call Wrapper (spec 4.4), whose source is not among
  the files. On a failure classified as authentication-related it consults
  \<open>handleAuthError\<close> and, if that returns true, retries the call once with freshly resolved
  headers; every other failure goes to the caller unchanged.
\<close>

definition wrapped_call ::
  "AuthProvider \<Rightarrow> store \<Rightarrow> issue \<Rightarrow> ApiCall
     \<Rightarrow> (call_failure + AxiosResponse) \<times> ApiCall list" where
  "wrapped_call provider context issue c =
     (case issue_with_auth provider context issue c of
        (Inl f, calls) \<Rightarrow> (Inl f, calls)
      | (Inr (Inr r), calls) \<Rightarrow> (Inr r, calls)
      | (Inr (Inl failure), calls) \<Rightarrow>
          if isAuthError failure \<and> handleAuthError provider failure = Inr True then
            (case issue_with_auth provider context issue c of
               (Inl f, calls') \<Rightarrow> (Inl f, calls @ calls')
             | (Inr (Inr r), calls') \<Rightarrow> (Inr r, calls @ calls')
             | (Inr (Inl failure'), calls') \<Rightarrow> (Inl (DownstreamFailure failure'), calls @ calls'))
          else (Inl (DownstreamFailure failure), calls))"

section \<open>Example environments\<close>

text \<open>
  Concrete surroundings for evaluating the handlers. \<open>plain_URL\<close> is \<open>new URL\<close> on an absolute
  URL in normal form with neither query nor fragment, such as the default
  \<open>http://localhost:3000/oauth/authorize\<close>. \<open>get_location\<close> is the request that follows a
  301 or 302 answer to a POST whose \<open>Location\<close> is an absolute URL: a GET of that URL
  without the body and its content headers. \<open>answering r\<close> is a downstream server that
  gives the answer \<open>r\<close>, with no headers, to every request; \<open>redirecting u l r\<close> answers a
  request to the URL \<open>u\<close> with a 302 to \<open>l\<close> and every other request with \<open>r\<close>. \<open>issue_ok\<close>
  is a downstream API that accepts every call.
\<close>

definition plain_URL :: "string \<Rightarrow> URL option" where
  "plain_URL s = Some \<lparr>url_base = s, searchParams = [], url_hash = []\<rparr>"

definition get_location :: "HttpRequest \<Rightarrow> string \<Rightarrow> HttpRequest" where
  "get_location request l =
     \<lparr>req_method = ''GET'', req_url = l, req_headers = [], req_body = []\<rparr>"

definition answering :: "AxiosResponse \<Rightarrow> Transport" where
  "answering r =
     \<lparr>network = (\<lambda>request.
         Some \<lparr>http_status = status r, http_headers = [], http_body = data r\<rparr>),
      redirect_request = get_location, maxRedirects = 5\<rparr>"


definition issue_ok :: issue where
  "issue_ok c = Inr \<lparr>status = 200, data = JNull\<rparr>"

section \<open>Properties of the auth providers\<close>

text \<open>
  C5: \<open>handleAuthError\<close> answers false on every error, for the static provider and for the
  bearer-token provider alike, whichever way it is reached: neither ever asks for a retry.
\<close>

theorem handleAuthError_never_retries:
  "StaticAuthProvider_handleAuthError hs error = Inr False
   \<and> BearerTokenAuthProvider_handleAuthError error = Inr False
   \<and> handleAuthError provider error = Inr False"
  by (cases provider)
     (simp_all add: StaticAuthProvider_handleAuthError_def
        BearerTokenAuthProvider_handleAuthError_def)

text \<open>
  C8: an error is classified as authentication-related exactly when it carries a response
  whose status is 401 or 403.
\<close>

theorem isAuthError_iff_401_or_403:
  "isAuthError error \<longleftrightarrow>
     (\<exists>r. response error = Some r \<and> (status r = 401 \<or> status r = 403))"
  by (cases "response error") (auto simp: isAuthError_def)

text \<open>
  C10: inside a request context whose bearer token is a non-empty string \<open>t\<close>, the
  bearer-token provider returns the header map with the one entry
  \<open>Authorization: Bearer t\<close>, the token unchanged.
\<close>

theorem bearer_getAuthHeaders_single_header:
  assumes "bearerToken c = Some t" and "t \<noteq> []"
  shows "BearerTokenAuthProvider_getAuthHeaders (Some c)
           = Inr [(''Authorization'', ''Bearer '' @ t)]"
  using assms by (simp add: BearerTokenAuthProvider_getAuthHeaders_def)

theorem bearer_getAuthHeaders_single_header_witness:
  "BearerTokenAuthProvider_getAuthHeaders (Some \<lparr>bearerToken = Some ''abc''\<rparr>)
     = Inr [(''Authorization'', ''Bearer abc'')]"
  using bearer_getAuthHeaders_single_header [of "\<lparr>bearerToken = Some ''abc''\<rparr>" "''abc''"]
  by simp

text \<open>
  C2: when no usable credential exists for the current call (no active request context, or
  a context whose bearer token is absent or empty), \<open>getAuthHeaders\<close> of the bearer-token
  provider fails with CredentialUnavailable, and a downstream call wrapped with this
  provider fails with that error having issued no call at all.
\<close>

theorem bearer_getAuthHeaders_fails_fast:
  assumes "context = None
           \<or> (\<exists>c. context = Some c \<and> (bearerToken c = None \<or> bearerToken c = Some []))"
  shows "BearerTokenAuthProvider_getAuthHeaders context = Inl CredentialUnavailable
         \<and> wrapped_call BearerTokenAuthProvider context issue call
             = (Inl (CredentialFailure CredentialUnavailable), [])"
  using assms
  by (auto simp: BearerTokenAuthProvider_getAuthHeaders_def wrapped_call_def
        issue_with_auth_def)

theorem bearer_getAuthHeaders_fails_fast_witness:
  "BearerTokenAuthProvider_getAuthHeaders (Some \<lparr>bearerToken = None\<rparr>)
     = Inl CredentialUnavailable
   \<and> wrapped_call BearerTokenAuthProvider (Some \<lparr>bearerToken = None\<rparr>) issue_ok
        \<lparr>call_method = ''GET'', call_path = ''/teams'', call_headers = [],
         call_body = JUndefined\<rparr>
       = (Inl (CredentialFailure CredentialUnavailable), [])"
  using bearer_getAuthHeaders_fails_fast [of "Some \<lparr>bearerToken = None\<rparr>" issue_ok
          "\<lparr>call_method = ''GET'', call_path = ''/teams'', call_headers = [],
            call_body = JUndefined\<rparr>"]
  by simp

section \<open>Properties of the OAuth relay\<close>

subsection \<open>Rejection of incomplete requests\<close>

lemma authorize_reject:
  assumes "\<not> truthy (case map_of q ''client_id'' of None \<Rightarrow> JUndefined | Some v \<Rightarrow> v)
         \<or> \<not> truthy (case map_of q ''redirect_uri'' of None \<Rightarrow> JUndefined | Some v \<Rightarrow> v)
         \<or> \<not> truthy (case map_of q ''state'' of None \<Rightarrow> JUndefined | Some v \<Rightarrow> v)"
  shows "authorize_handler new_URL base (JObj q)
           = (Json 400 (oauth_error ''invalid_request''
                ''Missing required parameters: client_id, redirect_uri, or state''), [])"
  using assms by (simp add: authorize_handler_def authorize_try_def bind_result_def)

lemma token_reject:
  assumes "\<not> truthy (case map_of b ''client_id'' of None \<Rightarrow> JUndefined | Some v \<Rightarrow> v)
         \<or> \<not> truthy (case map_of b ''client_secret'' of None \<Rightarrow> JUndefined | Some v \<Rightarrow> v)
         \<or> (map_of b ''grant_type'' = Some (JStr ''authorization_code'')
             \<and> \<not> truthy (case map_of b ''code'' of None \<Rightarrow> JUndefined | Some v \<Rightarrow> v))"
  shows "\<exists>d. token_handler server base (JObj b)
               = (Json 400 (oauth_error ''invalid_request'' d), [])"
  using assms by (auto simp add: token_handler_def token_try_def bind_result_def)

lemma invalid_request_oauth_error:
  "invalid_request (Json 400 (oauth_error ''invalid_request'' d))"
  by (simp add: oauth_error_def)

lemma authorize_reject_invalid_request:
  assumes "authorize_handler new_URL base query
             = (Json 400 (oauth_error ''invalid_request'' d), [])"
  shows "invalid_request (fst (authorize_handler new_URL base query))
         \<and> \<not> is_redirect (fst (authorize_handler new_URL base query))
         \<and> snd (authorize_handler new_URL base query) = []"
  using assms by (simp add: invalid_request_oauth_error)

lemma token_reject_invalid_request:
  assumes "token_handler server base body
             = (Json 400 (oauth_error ''invalid_request'' d), [])"
  shows "invalid_request (fst (token_handler server base body))
         \<and> snd (token_handler server base body) = []"
  using assms by (simp add: invalid_request_oauth_error)

text \<open>
  C6: an authorize request whose query lacks \<open>client_id\<close>, \<open>redirect_uri\<close> or \<open>state\<close> is
  answered with status 400 and the error code \<open>invalid_request\<close>; the answer is no
  redirect, and nothing is sent downstream.
\<close>

theorem authorize_missing_parameter:
  assumes "map_of q ''client_id'' = None \<or> map_of q ''redirect_uri'' = None
           \<or> map_of q ''state'' = None"
  shows "invalid_request (fst (authorize_handler new_URL base (JObj q)))
         \<and> \<not> is_redirect (fst (authorize_handler new_URL base (JObj q)))
         \<and> snd (authorize_handler new_URL base (JObj q)) = []"
proof (rule authorize_reject_invalid_request)
  show "authorize_handler new_URL base (JObj q)
          = (Json 400 (oauth_error ''invalid_request''
               ''Missing required parameters: client_id, redirect_uri, or state''), [])"
    using assms by (intro authorize_reject) auto
qed

theorem authorize_missing_parameter_witness:
  "map_of [(''client_id'', JStr ''id''), (''redirect_uri'', JStr ''https://x'')] ''state'' = None
   \<and> invalid_request (fst (authorize_handler plain_URL ''http://localhost:3000''
        (JObj [(''client_id'', JStr ''id''), (''redirect_uri'', JStr ''https://x'')])))
   \<and> \<not> is_redirect (fst (authorize_handler plain_URL ''http://localhost:3000''
        (JObj [(''client_id'', JStr ''id''), (''redirect_uri'', JStr ''https://x'')])))
   \<and> snd (authorize_handler plain_URL ''http://localhost:3000''
        (JObj [(''client_id'', JStr ''id''), (''redirect_uri'', JStr ''https://x'')])) = []"
  using authorize_missing_parameter
          [of "[(''client_id'', JStr ''id''), (''redirect_uri'', JStr ''https://x'')]"
              plain_URL "''http://localhost:3000''"]
  by simp





text \<open>
  C9: both endpoints treat a required parameter that is present but the empty string as
  missing. An authorize request with an empty \<open>client_id\<close>, \<open>redirect_uri\<close> or \<open>state\<close>, and
  a token request with an empty \<open>client_id\<close> or \<open>client_secret\<close>, or with an empty \<open>code\<close>
  under the grant type \<open>authorization_code\<close>, are answered with status 400 and the error
  code \<open>invalid_request\<close>, and nothing is sent downstream.
\<close>

theorem empty_parameter_rejected:
  "(map_of q ''client_id'' = Some (JStr []) \<or> map_of q ''redirect_uri'' = Some (JStr [])
      \<or> map_of q ''state'' = Some (JStr [])
    \<longrightarrow> invalid_request (fst (authorize_handler new_URL base (JObj q)))
        \<and> \<not> is_redirect (fst (authorize_handler new_URL base (JObj q)))
        \<and> snd (authorize_handler new_URL base (JObj q)) = [])
   \<and> (map_of b ''client_id'' = Some (JStr []) \<or> map_of b ''client_secret'' = Some (JStr [])
      \<or> (map_of b ''grant_type'' = Some (JStr ''authorization_code'')
          \<and> map_of b ''code'' = Some (JStr []))
    \<longrightarrow> invalid_request (fst (token_handler server base (JObj b)))
        \<and> snd (token_handler server base (JObj b)) = [])"
proof (intro conjI impI)
  assume a: "map_of q ''client_id'' = Some (JStr []) \<or> map_of q ''redirect_uri'' = Some (JStr [])
      \<or> map_of q ''state'' = Some (JStr [])"
  have r: "authorize_handler new_URL base (JObj q)
          = (Json 400 (oauth_error ''invalid_request''
               ''Missing required parameters: client_id, redirect_uri, or state''), [])"
    using a by (intro authorize_reject) auto
  show "invalid_request (fst (authorize_handler new_URL base (JObj q)))"
    and "\<not> is_redirect (fst (authorize_handler new_URL base (JObj q)))"
    and "snd (authorize_handler new_URL base (JObj q)) = []"
    using authorize_reject_invalid_request [OF r] by simp_all
next
  assume a: "map_of b ''client_id'' = Some (JStr []) \<or> map_of b ''client_secret'' = Some (JStr [])
      \<or> (map_of b ''grant_type'' = Some (JStr ''authorization_code'')
          \<and> map_of b ''code'' = Some (JStr []))"
  obtain d where r:
    "token_handler server base (JObj b) = (Json 400 (oauth_error ''invalid_request'' d), [])"
    using token_reject [of b server base] a by auto
  show "invalid_request (fst (token_handler server base (JObj b)))"
    and "snd (token_handler server base (JObj b)) = []"
    using token_reject_invalid_request [OF r] by simp_all
qed

theorem empty_parameter_rejected_witness:
  "invalid_request (fst (authorize_handler plain_URL ''http://localhost:3000''
      (JObj [(''client_id'', JStr ''id''), (''redirect_uri'', JStr ''https://x''),
             (''state'', JStr [])])))
   \<and> snd (authorize_handler plain_URL ''http://localhost:3000''
      (JObj [(''client_id'', JStr ''id''), (''redirect_uri'', JStr ''https://x''),
             (''state'', JStr [])])) = []
   \<and> invalid_request (fst (token_handler (answering \<lparr>status = 200, data = JNull\<rparr>)
      ''http://localhost:3000''
      (JObj [(''grant_type'', JStr ''authorization_code''), (''code'', JStr []),
             (''client_id'', JStr ''id''), (''client_secret'', JStr ''sec'')])))
   \<and> snd (token_handler (answering \<lparr>status = 200, data = JNull\<rparr>)
      ''http://localhost:3000''
      (JObj [(''grant_type'', JStr ''authorization_code''), (''code'', JStr []),
             (''client_id'', JStr ''id''), (''client_secret'', JStr ''sec'')])) = []"
  using empty_parameter_rejected
          [of "[(''client_id'', JStr ''id''), (''redirect_uri'', JStr ''https://x''),
                (''state'', JStr [])]"
              plain_URL "''http://localhost:3000''"
              "[(''grant_type'', JStr ''authorization_code''), (''code'', JStr []),
                (''client_id'', JStr ''id''), (''client_secret'', JStr ''sec'')]"
              "answering \<lparr>status = 200, data = JNull\<rparr>"]
  by simp

subsection \<open>The authorize redirect\<close>





subsection \<open>The token relay\<close>










end
